theory Spec2Isabelle
  imports Main "HOL-Library.Sublist"
begin

section \<open>Strings, headers and errors\<close>

text \<open>
  Go strings are byte sequences; \<open>string\<close> is a list of 8-bit characters.
  \<open>strings.HasPrefix\<close> and \<open>strings.TrimPrefix\<close> are the two library calls that
  \<open>extractUserContext\<close> makes on the Authorization value.
\<close>

definition HasPrefix :: "string \<Rightarrow> string \<Rightarrow> bool" where
  "HasPrefix s p = (length p \<le> length s \<and> take (length p) s = p)"

definition TrimPrefix :: "string \<Rightarrow> string \<Rightarrow> string" where
  "TrimPrefix s p = (if HasPrefix s p then drop (length p) s else s)"

text \<open>
  \<open>http.Header\<close> is \<open>map[string][]string\<close>. \<open>Get\<close> returns the first value stored
  under the key and the empty string when there is none, so a header that is absent and a
  header that is present with an empty value read the same. The library compares keys in
  canonical form; here a header is identified by the name the code passes.
\<close>

type_synonym Header = "string \<rightharpoonup> string list"

definition Header_Get :: "Header \<Rightarrow> string \<Rightarrow> string" where
  "Header_Get h key = (case h key of None \<Rightarrow> [] | Some [] \<Rightarrow> [] | Some (v # _) \<Rightarrow> v)"

definition Header_Set :: "Header \<Rightarrow> string \<Rightarrow> string \<Rightarrow> Header" where
  "Header_Set h key v = h(key \<mapsto> [v])"

text \<open>
  Errors are values. \<open>Errorf\<close> is \<open>fmt.Errorf\<close> on a text without verbs,
  \<open>Errorf_w\<close> is \<open>fmt.Errorf\<close> on a text that ends in \<open>%w\<close>, and
  \<open>ErrServerClosed\<close> is the sentinel of \<open>net/http\<close>.
\<close>

datatype error = Errorf string | Errorf_w string error | ErrServerClosed

fun Error :: "error \<Rightarrow> string" where
  "Error (Errorf m) = m"
| "Error (Errorf_w m e) = m @ Error e"
| "Error ErrServerClosed = ''http: Server closed''"

section \<open>Identity record, request context and requests\<close>

record UserContext =
  UserID :: string
  Email :: string
  Name :: string
  SessionID :: string
  Token :: string
  RequestID :: string

text \<open>
  A \<open>context.Context\<close> is a chain of key/value pairs, the newest first. A key is a value
  of the package's private type \<open>contextKey\<close> or of some other type; a value is a
  \<open>*UserContext\<close> (possibly nil) or something else.
\<close>

datatype ctx_key = contextKey string | other_key string

datatype ctx_value = UserContextPtr "UserContext option" | other_value string

type_synonym Context = "(ctx_key \<times> ctx_value) list"

definition userContextKey :: ctx_key where
  "userContextKey = contextKey ''user_context''"

definition context_WithValue :: "Context \<Rightarrow> ctx_key \<Rightarrow> ctx_value \<Rightarrow> Context" where
  "context_WithValue ctx k v = (k, v) # ctx"

definition context_Value :: "Context \<Rightarrow> ctx_key \<Rightarrow> ctx_value option" where
  "context_Value ctx k = map_of ctx k"

record Request =
  Method :: string
  URL_Path :: string
  RemoteAddr :: string
  Header :: Header
  Context :: Context

section \<open>extractUserContext, GetUserContext, WithUserContext\<close>

definition extractUserContext :: "Request \<Rightarrow> error + UserContext" where
  "extractUserContext r =
     (let authHeader = Header_Get (Header r) ''Authorization'' in
      if authHeader = [] then Inl (Errorf ''missing Authorization header'')
      else if \<not> HasPrefix authHeader ''Bearer ''
      then Inl (Errorf ''invalid Authorization header format'')
      else
        let token = TrimPrefix authHeader ''Bearer '';
            userID = Header_Get (Header r) ''X-User-ID'';
            email = Header_Get (Header r) ''X-User-Email'';
            name = Header_Get (Header r) ''X-User-Name'';
            sessionID = Header_Get (Header r) ''X-Session-ID'';
            requestID = Header_Get (Header r) ''X-Gateway-Request-ID''
        in if userID = [] \<or> email = []
           then Inl (Errorf
             ''missing required user context headers (X-User-ID or X-User-Email)'')
           else Inr \<lparr>UserID = userID, Email = email, Name = name,
                     SessionID = sessionID, Token = token, RequestID = requestID\<rparr>)"

text \<open>
  The type assertion \<open>ctx.Value(userContextKey).(*UserContext)\<close> in its two-result form
  gives the zero value (nil) and \<open>false\<close> when the key is unset or holds another type.
\<close>

definition GetUserContext :: "Context \<Rightarrow> UserContext option \<times> bool" where
  "GetUserContext ctx =
     (case context_Value ctx userContextKey of
        Some (UserContextPtr userCtx) \<Rightarrow> (userCtx, True)
      | _ \<Rightarrow> (None, False))"

definition WithUserContext :: "Context \<Rightarrow> UserContext option \<Rightarrow> Context" where
  "WithUserContext ctx userCtx = context_WithValue ctx userContextKey (UserContextPtr userCtx)"

section \<open>Response writer, log and handlers\<close>

text \<open>
  The response writer keeps the header map, the status once it is written, the headers as
  they went out with the status line, and the body. \<open>WriteHeader\<close> acts once; \<open>Write\<close>
  writes status 200 first when no status was written.
\<close>

record ResponseWriter =
  w_header :: Header
  w_status :: "nat option"
  w_sent :: Header
  w_body :: string

definition WriteHeader :: "nat \<Rightarrow> ResponseWriter \<Rightarrow> ResponseWriter" where
  "WriteHeader code w =
     (if w_status w = None then w\<lparr>w_status := Some code, w_sent := w_header w\<rparr> else w)"

definition Write :: "string \<Rightarrow> ResponseWriter \<Rightarrow> ResponseWriter" where
  "Write bs w = (let w' = WriteHeader 200 w in w'\<lparr>w_body := w_body w' @ bs\<rparr>)"

definition SetHeader :: "string \<Rightarrow> string \<Rightarrow> ResponseWriter \<Rightarrow> ResponseWriter" where
  "SetHeader key v w = w\<lparr>w_header := Header_Set (w_header w) key v\<rparr>"

definition new_writer :: ResponseWriter where
  "new_writer = \<lparr>w_header = Map.empty, w_status = None, w_sent = Map.empty, w_body = []\<rparr>"

datatype Level = DebugLevel | InfoLevel | WarnLevel

datatype LogEntry = LogEntry Level "(string \<times> string) list" string

text \<open>
  What a handler can change: the response it writes and the process-wide logger. The
  clock is what \<open>time.Now().Format(time.RFC3339)\<close> gives during the call.
\<close>

record State =
  resp :: ResponseWriter
  logs :: "LogEntry list"
  clock :: string

type_synonym Handler = "Request \<Rightarrow> State \<Rightarrow> State"

definition logrus :: "Level \<Rightarrow> (string \<times> string) list \<Rightarrow> string \<Rightarrow> State \<Rightarrow> State" where
  "logrus lvl fs msg s = s\<lparr>logs := logs s @ [LogEntry lvl fs msg]\<rparr>"

definition on_writer :: "(ResponseWriter \<Rightarrow> ResponseWriter) \<Rightarrow> State \<Rightarrow> State" where
  "on_writer f s = s\<lparr>resp := f (resp s)\<rparr>"

section \<open>The two authentication middlewares\<close>

definition AuthenticationMiddleware :: "Handler \<Rightarrow> Handler" where
  "AuthenticationMiddleware next r s =
     (let s1 = logrus DebugLevel
                 [(''method'', Method r), (''path'', URL_Path r), (''remote'', RemoteAddr r)]
                 ''Incoming request'' s
      in case extractUserContext r of
           Inl err \<Rightarrow>
             let s2 = logrus WarnLevel
                        [(''error'', Error err), (''path'', URL_Path r),
                         (''user_agent'', Header_Get (Header r) ''User-Agent'')]
                        ''Authentication extraction failed'' s1;
                 s3 = on_writer (SetHeader ''Content-Type'' ''application/json'') s2;
                 s4 = on_writer (WriteHeader 401) s3
             in on_writer (Write (''{\"error\":\"authentication required\",\"message\":\"''
                                   @ Error err @ ''\"}'')) s4
         | Inr userCtx \<Rightarrow>
             let s2 = logrus InfoLevel
                        [(''user_id'', UserID userCtx), (''user_email'', Email userCtx),
                         (''session_id'', SessionID userCtx),
                         (''request_id'', RequestID userCtx)]
                        ''Authenticated request'' s1;
                 ctx = WithUserContext (Context r) (Some userCtx)
             in next (r\<lparr>Context := ctx\<rparr>) s2)"

definition OptionalAuthenticationMiddleware :: "Handler \<Rightarrow> Handler" where
  "OptionalAuthenticationMiddleware next r s =
     (case extractUserContext r of
        Inl err \<Rightarrow>
          let s1 = logrus DebugLevel [(''error'', Error err), (''path'', URL_Path r)]
                     ''No authentication context, continuing without user context'' s
          in next r s1
      | Inr userCtx \<Rightarrow>
          let s1 = logrus DebugLevel
                     [(''user_id'', UserID userCtx), (''user_email'', Email userCtx)]
                     ''Authenticated request'' s;
              ctx = WithUserContext (Context r) (Some userCtx)
          in next (r\<lparr>Context := ctx\<rparr>) s1)"

section \<open>CORS envelope\<close>

definition addSimpleCORS :: "Handler \<Rightarrow> Handler" where
  "addSimpleCORS next r s =
     (let s1 = on_writer (SetHeader ''Access-Control-Allow-Origin'' ''*'') s;
          s2 = on_writer (SetHeader ''Access-Control-Allow-Methods''
                            ''GET, POST, PUT, DELETE, OPTIONS'') s1;
          s3 = on_writer (SetHeader ''Access-Control-Allow-Headers''
                 ''Authorization, Content-Type, X-User-ID, X-User-Email, X-User-Name, X-Session-ID, X-Gateway-Request-ID'') s2
      in if Method r = ''OPTIONS'' then on_writer (WriteHeader 200) s3 else next r s3)"

text \<open>Names joined by a comma and a space, to state what a header value lists.\<close>

fun join_comma :: "string list \<Rightarrow> string" where
  "join_comma [] = []"
| "join_comma [x] = x"
| "join_comma (x # y # ys) = x @ '', '' @ join_comma (y # ys)"

section \<open>Routes of RunSSEServerWithSimpleAuth\<close>

text \<open>
  The fields of \<open>SSEServerConfig\<close> that the request path reads, typed as the struct
  literal in \<open>cmd/github-mcp-server/main.go\<close> fills them.
\<close>

record SSEServerConfig =
  Version :: string
  Host :: string
  ReadOnly :: bool
  BasePath :: string
  ListenAddr :: string

definition fmt_bool :: "bool \<Rightarrow> string" where
  "fmt_bool b = (if b then ''true'' else ''false'')"

definition healthHandler :: Handler where
  "healthHandler r s =
     (let s1 = on_writer (SetHeader ''Content-Type'' ''application/json'') s;
          s2 = on_writer (WriteHeader 200) s1
      in on_writer (Write (''{\"status\":\"healthy\",\"timestamp\":\"'' @ clock s2 @ ''\"}'')) s2)"

definition nl_tabs :: string where
  "nl_tabs = [CHR 0x0A, CHR 0x09, CHR 0x09, CHR 0x09]"

definition statusHandler :: "SSEServerConfig \<Rightarrow> bool \<Rightarrow> Handler" where
  "statusHandler cfg allowUnauthenticated r s =
     (let s1 = on_writer (SetHeader ''Content-Type'' ''application/json'') s;
          s2 = on_writer (WriteHeader 200) s1;
          status = ''{'' @ nl_tabs @ ''\"status\": \"running\",''
                   @ nl_tabs @ ''\"version\": \"'' @ Version cfg @ ''\",''
                   @ nl_tabs @ ''\"host\": \"'' @ Host cfg @ ''\",''
                   @ nl_tabs @ ''\"authentication_required\": ''
                       @ fmt_bool (\<not> allowUnauthenticated) @ '',''
                   @ nl_tabs @ ''\"read_only\": '' @ fmt_bool (ReadOnly cfg) @ '',''
                   @ nl_tabs @ ''\"timestamp\": \"'' @ clock s2 @ ''\"''
                   @ [CHR 0x0A, CHR 0x09, CHR 0x09] @ ''}''
      in on_writer (Write status) s2)"

text \<open>
  The mux holds the registered patterns in order; a pattern without a trailing slash
  matches its own path only. What the library does with a path that matches no pattern
  (a redirect or a 404) is the parameter \<open>unmatched\<close>.
\<close>

definition ServeMux :: "(string \<times> Handler) list \<Rightarrow> Handler \<Rightarrow> Handler" where
  "ServeMux patterns unmatched r s =
     (case map_of patterns (URL_Path r) of Some h \<Rightarrow> h r s | None \<Rightarrow> unmatched r s)"

definition mux :: "SSEServerConfig \<Rightarrow> bool \<Rightarrow> Handler \<Rightarrow> Handler \<Rightarrow> (string \<times> Handler) list" where
  "mux cfg allowUnauthenticated SSEHandler MessageHandler =
     (let authMiddleware = (if allowUnauthenticated then OptionalAuthenticationMiddleware
                            else AuthenticationMiddleware)
      in [(''/health'', healthHandler),
          (''/status'', statusHandler cfg allowUnauthenticated),
          (BasePath cfg @ ''/sse'', authMiddleware SSEHandler),
          (BasePath cfg @ ''/message'', authMiddleware MessageHandler)])"

definition corsHandler :: "SSEServerConfig \<Rightarrow> bool \<Rightarrow> Handler \<Rightarrow> Handler \<Rightarrow> Handler \<Rightarrow> Handler" where
  "corsHandler cfg allowUnauthenticated SSEHandler MessageHandler unmatched =
     addSimpleCORS (ServeMux (mux cfg allowUnauthenticated SSEHandler MessageHandler) unmatched)"

section \<open>Waiting for shutdown\<close>

text \<open>
  The end of \<open>RunSSEServerWithSimpleAuth\<close>: the \<open>select\<close> takes whichever of the two
  channels fires first, which is the input \<open>select_event\<close> here; \<open>Shutdown\<close> is the
  server's method, given the budget of its context in nanoseconds. The result records
  every budget \<open>Shutdown\<close> was called with, the log lines and the error returned.
\<close>

datatype select_event = ctx_Done | errC "error option"

record RunResult =
  shutdown_calls :: "int list"
  run_logs :: "LogEntry list"
  returned :: "error option"

definition time_Second :: int where
  "time_Second = 1000000000"

definition graceful_shutdown :: "(int \<Rightarrow> error option) \<Rightarrow> LogEntry list \<Rightarrow> RunResult" where
  "graceful_shutdown Shutdown lg =
     \<lparr>shutdown_calls = [30 * time_Second], run_logs = lg,
      returned = Shutdown (30 * time_Second)\<rparr>"

definition RunSSEServerWithSimpleAuth_wait :: "(int \<Rightarrow> error option) \<Rightarrow> select_event \<Rightarrow> RunResult" where
  "RunSSEServerWithSimpleAuth_wait Shutdown ev =
     (case ev of
        ctx_Done \<Rightarrow>
          graceful_shutdown Shutdown [LogEntry InfoLevel [] ''Shutting down server...'']
      | errC err \<Rightarrow>
          (case err of
             None \<Rightarrow> graceful_shutdown Shutdown []
           | Some e \<Rightarrow>
               if e \<noteq> ErrServerClosed
               then \<lparr>shutdown_calls = [], run_logs = [],
                     returned = Some (Errorf_w ''error running server: '' e)\<rparr>
               else graceful_shutdown Shutdown []))"

section \<open>Sample inputs for concrete evaluations\<close>

definition request_with :: "(string \<times> string list) list \<Rightarrow> Request" where
  "request_with hs = \<lparr>Method = ''GET'', URL_Path = ''/sse'', RemoteAddr = ''10.0.0.7:51234'',
                      Header = map_of hs, Context = []\<rparr>"

definition initial_state :: State where
  "initial_state = \<lparr>resp = new_writer, logs = [], clock = ''2025-06-01T12:00:00Z''\<rparr>"

definition other_request :: Request where
  "other_request =
     \<lparr>Method = ''POST'', URL_Path = ''/message'', RemoteAddr = ''192.0.2.1:80'',
      Header = map_of [(''User-Agent'', [''curl'']), (''X-User-Name'', ['''']),
                       (''Authorization'', [''Bearer abc'', ''Bearer other'']),
                       (''X-User-ID'', [''u1'']), (''X-User-Email'', [''u1@example.com''])],
      Context = [(other_key ''trace'', other_value ''t1'')]\<rparr>"

text \<open>
  A downstream handler that branches on the presence of an identity and writes what it
  found into the response.
\<close>

definition report_identity :: Handler where
  "report_identity r s =
     (case GetUserContext (Context r) of
        (Some u, True) \<Rightarrow>
          on_writer (Write (''user='' @ UserID u @ '' email='' @ Email u
                            @ '' token='' @ Token u)) s
      | _ \<Rightarrow> on_writer (Write ''anonymous'') s)"

text \<open>The state after the three \<open>Header().Set\<close> calls that \<open>addSimpleCORS\<close> starts with.\<close>

definition cors_stamped :: "State \<Rightarrow> State" where
  "cors_stamped s =
     on_writer (SetHeader ''Access-Control-Allow-Headers''
        ''Authorization, Content-Type, X-User-ID, X-User-Email, X-User-Name, X-Session-ID, X-Gateway-Request-ID'')
       (on_writer (SetHeader ''Access-Control-Allow-Methods'' ''GET, POST, PUT, DELETE, OPTIONS'')
          (on_writer (SetHeader ''Access-Control-Allow-Origin'' ''*'') s))"

definition options_request :: Request where
  "options_request =
     \<lparr>Method = ''OPTIONS'', URL_Path = ''/message'', RemoteAddr = ''10.0.0.7:51234'',
      Header = Map.empty, Context = []\<rparr>"

definition sample_config :: SSEServerConfig where
  "sample_config = \<lparr>Version = ''1.2.3'', Host = ''https://api.github.com'',
                     ReadOnly = True, BasePath = [], ListenAddr = '':8080''\<rparr>"

definition health_request :: Request where
  "health_request =
     \<lparr>Method = ''GET'', URL_Path = ''/health'', RemoteAddr = ''10.0.0.7:51234'',
      Header = map_of [(''Authorization'', [''garbage''])], Context = []\<rparr>"

definition status_request :: Request where
  "status_request =
     \<lparr>Method = ''GET'', URL_Path = ''/status'', RemoteAddr = ''10.0.0.7:51234'',
      Header = Map.empty, Context = []\<rparr>"

text \<open>A \<open>Shutdown\<close> that drains in time and reports no error.\<close>

definition Shutdown_clean :: "int \<Rightarrow> error option" where
  "Shutdown_clean budget = None"

section \<open>Library facts\<close>

lemma HasPrefix_iff_prefix: "HasPrefix s p \<longleftrightarrow> prefix p s"
  unfolding HasPrefix_def prefix_def
  by (metis append_eq_conv_conj append_take_drop_id length_append le_add1)

lemma HasPrefix_append: "HasPrefix (p @ t) p"
  by (simp add: HasPrefix_def)

lemma TrimPrefix_append: "TrimPrefix (p @ t) p = t"
  by (simp add: TrimPrefix_def HasPrefix_append)

lemma Header_Get_absent: "h key = None \<Longrightarrow> Header_Get h key = []"
  by (simp add: Header_Get_def)

section \<open>The four outcomes of extractUserContext\<close>

lemma extract_missing:
  assumes "Header_Get (Header r) ''Authorization'' = []"
  shows "extractUserContext r = Inl (Errorf ''missing Authorization header'')"
  using assms by (simp add: extractUserContext_def)

lemma extract_malformed:
  assumes "Header_Get (Header r) ''Authorization'' \<noteq> []"
    and "\<not> prefix ''Bearer '' (Header_Get (Header r) ''Authorization'')"
  shows "extractUserContext r = Inl (Errorf ''invalid Authorization header format'')"
  using assms by (simp add: extractUserContext_def HasPrefix_iff_prefix)

lemma extract_claims_missing:
  assumes "Header_Get (Header r) ''Authorization'' = ''Bearer '' @ tok"
    and "Header_Get (Header r) ''X-User-ID'' = [] \<or> Header_Get (Header r) ''X-User-Email'' = []"
  shows "extractUserContext r = Inl (Errorf
           ''missing required user context headers (X-User-ID or X-User-Email)'')"
proof -
  have "HasPrefix (Header_Get (Header r) ''Authorization'') ''Bearer ''"
    using assms(1) by (metis HasPrefix_append)
  with assms show ?thesis
    by (auto simp add: extractUserContext_def Let_def)
qed

lemma extract_ok:
  assumes "Header_Get (Header r) ''Authorization'' = ''Bearer '' @ tok"
    and "Header_Get (Header r) ''X-User-ID'' \<noteq> []"
    and "Header_Get (Header r) ''X-User-Email'' \<noteq> []"
  shows "extractUserContext r = Inr
           \<lparr>UserID = Header_Get (Header r) ''X-User-ID'',
            Email = Header_Get (Header r) ''X-User-Email'',
            Name = Header_Get (Header r) ''X-User-Name'',
            SessionID = Header_Get (Header r) ''X-Session-ID'',
            Token = tok,
            RequestID = Header_Get (Header r) ''X-Gateway-Request-ID''\<rparr>"
proof -
  have "HasPrefix (Header_Get (Header r) ''Authorization'') ''Bearer ''"
    and "TrimPrefix (Header_Get (Header r) ''Authorization'') ''Bearer '' = tok"
    using assms(1) by (metis HasPrefix_append, metis TrimPrefix_append)
  with assms show ?thesis
    by (simp add: extractUserContext_def Let_def)
qed

lemma extract_Inr_fields:
  assumes "extractUserContext r = Inr u"
  shows "UserID u \<noteq> [] \<and> Email u \<noteq> []
         \<and> Header_Get (Header r) ''Authorization'' = ''Bearer '' @ Token u"
proof -
  let ?a = "Header_Get (Header r) ''Authorization''"
  from assms have p: "HasPrefix ?a ''Bearer ''"
    by (auto simp add: extractUserContext_def Let_def split: if_splits)
  then obtain t where t: "?a = ''Bearer '' @ t"
    unfolding HasPrefix_iff_prefix prefix_def by blast
  then have "TrimPrefix ?a ''Bearer '' = t"
    by (metis TrimPrefix_append)
  with assms p t show ?thesis
    by (auto simp add: extractUserContext_def Let_def split: if_splits)
qed

section \<open>Claims about extractUserContext\<close>

text \<open>
  C1 (as amended). Extraction classifies a request in this order: when the Authorization
  header is absent, or present with an empty value, it fails with the missing-credential
  error; otherwise, when the value does not start with the bearer prefix, it fails with the
  malformed-credential error; otherwise the prefix is stripped (the rest may be empty) and,
  when X-User-ID or X-User-Email is empty, it fails with the missing-identity-claims error;
  otherwise it returns the record made of the stripped token, the two required claims and
  the three optional headers as read.
\<close>

theorem extractUserContext_classification:
  "(Header r ''Authorization'' = None \<or> Header_Get (Header r) ''Authorization'' = []
      \<longrightarrow> extractUserContext r = Inl (Errorf ''missing Authorization header''))
   \<and> (Header_Get (Header r) ''Authorization'' \<noteq> []
        \<and> \<not> prefix ''Bearer '' (Header_Get (Header r) ''Authorization'')
      \<longrightarrow> extractUserContext r = Inl (Errorf ''invalid Authorization header format''))
   \<and> (Header_Get (Header r) ''Authorization'' = ''Bearer '' @ tok
        \<and> (Header_Get (Header r) ''X-User-ID'' = []
           \<or> Header_Get (Header r) ''X-User-Email'' = [])
      \<longrightarrow> extractUserContext r = Inl (Errorf
            ''missing required user context headers (X-User-ID or X-User-Email)''))
   \<and> (Header_Get (Header r) ''Authorization'' = ''Bearer '' @ tok
        \<and> Header_Get (Header r) ''X-User-ID'' \<noteq> []
        \<and> Header_Get (Header r) ''X-User-Email'' \<noteq> []
      \<longrightarrow> extractUserContext r = Inr
            \<lparr>UserID = Header_Get (Header r) ''X-User-ID'',
             Email = Header_Get (Header r) ''X-User-Email'',
             Name = Header_Get (Header r) ''X-User-Name'',
             SessionID = Header_Get (Header r) ''X-Session-ID'',
             Token = tok,
             RequestID = Header_Get (Header r) ''X-Gateway-Request-ID''\<rparr>)"
proof (intro conjI impI)
  assume "Header r ''Authorization'' = None \<or> Header_Get (Header r) ''Authorization'' = []"
  then have "Header_Get (Header r) ''Authorization'' = []"
    by (auto simp: Header_Get_absent)
  then show "extractUserContext r = Inl (Errorf ''missing Authorization header'')"
    by (rule extract_missing)
qed (simp_all add: extract_malformed extract_claims_missing extract_ok)

theorem extractUserContext_classification_witness:
  "Header (request_with []) ''Authorization'' = None
   \<and> extractUserContext (request_with []) = Inl (Errorf ''missing Authorization header'')
   \<and> Header_Get (Header (request_with [(''Authorization'', [''Token abc''])]))
        ''Authorization'' = ''Token abc''
   \<and> extractUserContext (request_with [(''Authorization'', [''Token abc''])])
       = Inl (Errorf ''invalid Authorization header format'')
   \<and> extractUserContext (request_with
         [(''Authorization'', [''Bearer abc'']), (''X-User-ID'', [''u1''])])
       = Inl (Errorf ''missing required user context headers (X-User-ID or X-User-Email)'')
   \<and> extractUserContext (request_with
         [(''Authorization'', [''Bearer abc'']), (''X-User-ID'', [''u1'']),
          (''X-User-Email'', [''u1@example.com'']), (''X-Session-ID'', [''s9''])])
       = Inr \<lparr>UserID = ''u1'', Email = ''u1@example.com'', Name = [], SessionID = ''s9'',
              Token = ''abc'', RequestID = []\<rparr>"
  using extractUserContext_classification [of "request_with []" "[]"]
    extractUserContext_classification
      [of "request_with [(''Authorization'', [''Token abc''])]" "[]"]
    extractUserContext_classification
      [of "request_with [(''Authorization'', [''Bearer abc'']), (''X-User-ID'', [''u1''])]"
          "''abc''"]
    extractUserContext_classification
      [of "request_with [(''Authorization'', [''Bearer abc'']), (''X-User-ID'', [''u1'']),
          (''X-User-Email'', [''u1@example.com'']), (''X-Session-ID'', [''s9''])]" "''abc''"]
  by (simp add: request_with_def Header_Get_def prefix_def)

text \<open>
  C1 as written fails on a request whose Authorization header is present with an empty
  value: the header is not absent and its value does not carry the bearer prefix, yet the
  failure is the missing-credential error, not the malformed-credential error.
\<close>

theorem empty_authorization_counterexample:
  "Header (request_with [(''Authorization'', [''''])]) ''Authorization'' \<noteq> None
   \<and> \<not> prefix ''Bearer ''
         (Header_Get (Header (request_with [(''Authorization'', [''''])])) ''Authorization'')
   \<and> extractUserContext (request_with [(''Authorization'', [''''])])
       = Inl (Errorf ''missing Authorization header'')
   \<and> extractUserContext (request_with [(''Authorization'', [''''])])
       \<noteq> Inl (Errorf ''invalid Authorization header format'')"
  by (simp add: request_with_def Header_Get_def extractUserContext_def)

text \<open>
  C9. Extraction is a function of six header values: two requests that agree on what
  \<open>Get\<close> reads for Authorization, X-User-ID, X-User-Email, X-User-Name, X-Session-ID and
  X-Gateway-Request-ID have the same outcome, whatever else differs (method, path, peer
  address, other headers, context). The function takes the request and returns the
  outcome; it reads and writes nothing else.
\<close>

theorem extractUserContext_deterministic:
  assumes "\<forall>k \<in> set [''Authorization'', ''X-User-ID'', ''X-User-Email'', ''X-User-Name'',
                      ''X-Session-ID'', ''X-Gateway-Request-ID''].
             Header_Get (Header r1) k = Header_Get (Header r2) k"
  shows "extractUserContext r1 = extractUserContext r2"
  using assms by (simp add: extractUserContext_def Let_def)

theorem extractUserContext_deterministic_witness:
  "Header_Get (Header (request_with
        [(''Authorization'', [''Bearer abc'']), (''X-User-ID'', [''u1'']),
         (''X-User-Email'', [''u1@example.com''])])) ''Authorization''
     = Header_Get (Header other_request) ''Authorization''
   \<and> Header_Get (Header (request_with
        [(''Authorization'', [''Bearer abc'']), (''X-User-ID'', [''u1'']),
         (''X-User-Email'', [''u1@example.com''])])) ''X-User-Name''
     = Header_Get (Header other_request) ''X-User-Name''
   \<and> URL_Path (request_with
        [(''Authorization'', [''Bearer abc'']), (''X-User-ID'', [''u1'']),
         (''X-User-Email'', [''u1@example.com''])]) \<noteq> URL_Path other_request
   \<and> Header (request_with
        [(''Authorization'', [''Bearer abc'']), (''X-User-ID'', [''u1'']),
         (''X-User-Email'', [''u1@example.com''])]) ''User-Agent''
     \<noteq> Header other_request ''User-Agent''
   \<and> extractUserContext (request_with
        [(''Authorization'', [''Bearer abc'']), (''X-User-ID'', [''u1'']),
         (''X-User-Email'', [''u1@example.com''])])
     = extractUserContext other_request"
proof -
  have h: "\<forall>k \<in> set [''Authorization'', ''X-User-ID'', ''X-User-Email'', ''X-User-Name'',
               ''X-Session-ID'', ''X-Gateway-Request-ID''].
      Header_Get (Header (request_with
          [(''Authorization'', [''Bearer abc'']), (''X-User-ID'', [''u1'']),
           (''X-User-Email'', [''u1@example.com''])])) k
      = Header_Get (Header other_request) k"
    by (simp add: request_with_def other_request_def Header_Get_def)
  from extractUserContext_deterministic [OF h] show ?thesis
    by (simp add: request_with_def other_request_def Header_Get_def)
qed

text \<open>
  C10. The bearer check is an exact, case-sensitive prefix match on \<open>Bearer\<close> followed by
  one space: a non-empty Authorization value that does not start with it fails with the
  malformed-credential error, in particular \<open>bearer abc\<close>, \<open>BEARER abc\<close> and \<open>Bearer\<close>
  without the space; the value \<open>Bearer\<close> plus the space alone succeeds with an empty token
  when X-User-ID and X-User-Email are non-empty.
\<close>

theorem bearer_prefix_exact:
  "(Header_Get (Header r) ''Authorization'' \<noteq> []
      \<and> \<not> prefix ''Bearer '' (Header_Get (Header r) ''Authorization'')
     \<longrightarrow> extractUserContext r = Inl (Errorf ''invalid Authorization header format''))
   \<and> (Header_Get (Header r) ''Authorization'' \<in> {''bearer abc'', ''BEARER abc'', ''Bearer''}
     \<longrightarrow> extractUserContext r = Inl (Errorf ''invalid Authorization header format''))
   \<and> (Header_Get (Header r) ''Authorization'' = ''Bearer ''
      \<and> Header_Get (Header r) ''X-User-ID'' \<noteq> []
      \<and> Header_Get (Header r) ''X-User-Email'' \<noteq> []
     \<longrightarrow> extractUserContext r = Inr
           \<lparr>UserID = Header_Get (Header r) ''X-User-ID'',
            Email = Header_Get (Header r) ''X-User-Email'',
            Name = Header_Get (Header r) ''X-User-Name'',
            SessionID = Header_Get (Header r) ''X-Session-ID'',
            Token = [],
            RequestID = Header_Get (Header r) ''X-Gateway-Request-ID''\<rparr>)"
proof (intro conjI impI)
  assume "Header_Get (Header r) ''Authorization'' \<noteq> []
      \<and> \<not> prefix ''Bearer '' (Header_Get (Header r) ''Authorization'')"
  then show "extractUserContext r = Inl (Errorf ''invalid Authorization header format'')"
    by (simp add: extract_malformed)
next
  assume "Header_Get (Header r) ''Authorization'' \<in> {''bearer abc'', ''BEARER abc'', ''Bearer''}"
  then have "Header_Get (Header r) ''Authorization'' \<noteq> []
      \<and> \<not> prefix ''Bearer '' (Header_Get (Header r) ''Authorization'')"
    by (auto simp add: prefix_def)
  then show "extractUserContext r = Inl (Errorf ''invalid Authorization header format'')"
    by (simp add: extract_malformed)
next
  assume a: "Header_Get (Header r) ''Authorization'' = ''Bearer ''
      \<and> Header_Get (Header r) ''X-User-ID'' \<noteq> []
      \<and> Header_Get (Header r) ''X-User-Email'' \<noteq> []"
  then have "Header_Get (Header r) ''Authorization'' = ''Bearer '' @ []" by simp
  from extract_ok [OF this] a
  show "extractUserContext r = Inr
           \<lparr>UserID = Header_Get (Header r) ''X-User-ID'',
            Email = Header_Get (Header r) ''X-User-Email'',
            Name = Header_Get (Header r) ''X-User-Name'',
            SessionID = Header_Get (Header r) ''X-Session-ID'',
            Token = [],
            RequestID = Header_Get (Header r) ''X-Gateway-Request-ID''\<rparr>"
    by simp
qed

theorem bearer_prefix_exact_witness:
  "extractUserContext (request_with [(''Authorization'', [''bearer abc''])])
     = Inl (Errorf ''invalid Authorization header format'')
   \<and> extractUserContext (request_with [(''Authorization'', [''BEARER abc''])])
     = Inl (Errorf ''invalid Authorization header format'')
   \<and> extractUserContext (request_with [(''Authorization'', [''Bearer''])])
     = Inl (Errorf ''invalid Authorization header format'')
   \<and> extractUserContext (request_with [(''Authorization'', [''Basic dXNlcg=='']),
         (''X-User-ID'', [''u1'']), (''X-User-Email'', [''u1@example.com''])])
     = Inl (Errorf ''invalid Authorization header format'')
   \<and> extractUserContext (request_with [(''Authorization'', [''Bearer '']),
         (''X-User-ID'', [''u1'']), (''X-User-Email'', [''u1@example.com''])])
     = Inr \<lparr>UserID = ''u1'', Email = ''u1@example.com'', Name = [], SessionID = [],
            Token = [], RequestID = []\<rparr>"
  using bearer_prefix_exact [of "request_with [(''Authorization'', [''bearer abc''])]"]
    bearer_prefix_exact [of "request_with [(''Authorization'', [''BEARER abc''])]"]
    bearer_prefix_exact [of "request_with [(''Authorization'', [''Bearer''])]"]
    bearer_prefix_exact [of "request_with [(''Authorization'', [''Basic dXNlcg=='']),
         (''X-User-ID'', [''u1'']), (''X-User-Email'', [''u1@example.com''])]"]
    bearer_prefix_exact [of "request_with [(''Authorization'', [''Bearer '']),
         (''X-User-ID'', [''u1'']), (''X-User-Email'', [''u1@example.com''])]"]
  by (simp add: request_with_def Header_Get_def prefix_def)

section \<open>Context lookup\<close>

lemma GetUserContext_WithUserContext: "GetUserContext (WithUserContext ctx p) = (p, True)"
  by (simp add: GetUserContext_def WithUserContext_def context_WithValue_def context_Value_def)

lemma GetUserContext_unset:
  "context_Value ctx userContextKey = None \<Longrightarrow> GetUserContext ctx = (None, False)"
  by (simp add: GetUserContext_def)

lemma GetUserContext_shape:
  "(\<exists>p. GetUserContext ctx = (p, True)) \<or> GetUserContext ctx = (None, False)"
  by (simp add: GetUserContext_def split: option.splits ctx_value.splits)

section \<open>What the two middlewares do on each outcome\<close>

lemma strict_on_failure:
  assumes "extractUserContext r = Inl err"
    and "w_status (resp s) = None" and "w_body (resp s) = []"
  shows "AuthenticationMiddleware next r s =
     s\<lparr>resp :=
         \<lparr>w_header = (w_header (resp s))(''Content-Type'' \<mapsto> [''application/json'']),
          w_status = Some 401,
          w_sent = (w_header (resp s))(''Content-Type'' \<mapsto> [''application/json'']),
          w_body = ''{\"error\":\"authentication required\",\"message\":\"''
                   @ Error err @ ''\"}''\<rparr>,
       logs := logs s @
         [LogEntry DebugLevel
            [(''method'', Method r), (''path'', URL_Path r), (''remote'', RemoteAddr r)]
            ''Incoming request'',
          LogEntry WarnLevel
            [(''error'', Error err), (''path'', URL_Path r),
             (''user_agent'', Header_Get (Header r) ''User-Agent'')]
            ''Authentication extraction failed'']\<rparr>"
  using assms
  by (simp add: AuthenticationMiddleware_def on_writer_def logrus_def SetHeader_def
      WriteHeader_def Write_def Header_Set_def Let_def)

lemma strict_on_success:
  assumes "extractUserContext r = Inr u"
  shows "AuthenticationMiddleware next r s =
     next (r\<lparr>Context := WithUserContext (Context r) (Some u)\<rparr>)
       (s\<lparr>logs := logs s @
          [LogEntry DebugLevel
             [(''method'', Method r), (''path'', URL_Path r), (''remote'', RemoteAddr r)]
             ''Incoming request'',
           LogEntry InfoLevel
             [(''user_id'', UserID u), (''user_email'', Email u),
              (''session_id'', SessionID u), (''request_id'', RequestID u)]
             ''Authenticated request'']\<rparr>)"
  using assms
  by (simp add: AuthenticationMiddleware_def logrus_def Let_def)

lemma optional_on_failure:
  assumes "extractUserContext r = Inl err"
  shows "OptionalAuthenticationMiddleware next r s =
     next r (s\<lparr>logs := logs s @
        [LogEntry DebugLevel [(''error'', Error err), (''path'', URL_Path r)]
           ''No authentication context, continuing without user context'']\<rparr>)"
  using assms
  by (simp add: OptionalAuthenticationMiddleware_def logrus_def Let_def)

lemma optional_on_success:
  assumes "extractUserContext r = Inr u"
  shows "OptionalAuthenticationMiddleware next r s =
     next (r\<lparr>Context := WithUserContext (Context r) (Some u)\<rparr>)
       (s\<lparr>logs := logs s @
          [LogEntry DebugLevel [(''user_id'', UserID u), (''user_email'', Email u)]
             ''Authenticated request'']\<rparr>)"
  using assms
  by (simp add: OptionalAuthenticationMiddleware_def logrus_def Let_def)

section \<open>Claims about the authentication gate\<close>

text \<open>
  C2. Strict policy. When extraction fails on a request whose response is still unwritten,
  the gate sets the status to 401 and the body to the JSON text whose \<open>error\<close> member is
  \<open>authentication required\<close> and whose \<open>message\<close> member is the failure reason as
  extraction gave it, and the outcome is the same for every downstream handler: the
  handler is not called. When extraction succeeds, the downstream handler is called with
  the request whose context carries the identity record.
\<close>

theorem strict_gate:
  "(extractUserContext r = Inl err \<and> w_status (resp s) = None \<and> w_body (resp s) = []
     \<longrightarrow> (\<exists>s'. (\<forall>next. AuthenticationMiddleware next r s = s')
              \<and> w_status (resp s') = Some 401
              \<and> w_body (resp s') = ''{\"error\":\"authentication required\",\"message\":\"''
                                    @ Error err @ ''\"}''
              \<and> w_sent (resp s') ''Content-Type'' = Some [''application/json'']))
   \<and> (extractUserContext r = Inr u
     \<longrightarrow> (\<exists>r' s'. (\<forall>next. AuthenticationMiddleware next r s = next r' s')
              \<and> GetUserContext (Context r') = (Some u, True)
              \<and> r' = r\<lparr>Context := Context r'\<rparr>
              \<and> resp s' = resp s))"
proof (intro conjI impI)
  assume a: "extractUserContext r = Inl err \<and> w_status (resp s) = None \<and> w_body (resp s) = []"
  let ?s' = "AuthenticationMiddleware undefined r s"
  have e: "\<And>next. AuthenticationMiddleware next r s = ?s'"
    using a by (simp add: strict_on_failure)
  have "w_status (resp ?s') = Some 401
        \<and> w_body (resp ?s') = ''{\"error\":\"authentication required\",\"message\":\"''
                                    @ Error err @ ''\"}''
        \<and> w_sent (resp ?s') ''Content-Type'' = Some [''application/json'']"
    using a by (simp add: strict_on_failure)
  with e show "\<exists>s'. (\<forall>next. AuthenticationMiddleware next r s = s')
              \<and> w_status (resp s') = Some 401
              \<and> w_body (resp s') = ''{\"error\":\"authentication required\",\"message\":\"''
                                    @ Error err @ ''\"}''
              \<and> w_sent (resp s') ''Content-Type'' = Some [''application/json'']"
    by blast
next
  assume a: "extractUserContext r = Inr u"
  let ?r' = "r\<lparr>Context := WithUserContext (Context r) (Some u)\<rparr>"
  let ?s' = "s\<lparr>logs := logs s @
          [LogEntry DebugLevel
             [(''method'', Method r), (''path'', URL_Path r), (''remote'', RemoteAddr r)]
             ''Incoming request'',
           LogEntry InfoLevel
             [(''user_id'', UserID u), (''user_email'', Email u),
              (''session_id'', SessionID u), (''request_id'', RequestID u)]
             ''Authenticated request'']\<rparr>"
  have "\<forall>next. AuthenticationMiddleware next r s = next ?r' ?s'"
    using a by (simp add: strict_on_success)
  moreover have "GetUserContext (Context ?r') = (Some u, True)"
    by (simp add: GetUserContext_WithUserContext)
  moreover have "?r' = r\<lparr>Context := Context ?r'\<rparr>" and "resp ?s' = resp s"
    by simp_all
  ultimately show "\<exists>r' s'. (\<forall>next. AuthenticationMiddleware next r s = next r' s')
              \<and> GetUserContext (Context r') = (Some u, True)
              \<and> r' = r\<lparr>Context := Context r'\<rparr>
              \<and> resp s' = resp s"
    by blast
qed

theorem strict_gate_witness:
  "extractUserContext (request_with [(''Authorization'', [''Token abc''])])
     = Inl (Errorf ''invalid Authorization header format'')
   \<and> w_status (resp initial_state) = None \<and> w_body (resp initial_state) = []
   \<and> (\<exists>s'. (\<forall>next. AuthenticationMiddleware next
                 (request_with [(''Authorization'', [''Token abc''])]) initial_state = s')
          \<and> w_status (resp s') = Some 401
          \<and> w_body (resp s') =
              ''{\"error\":\"authentication required\",\"message\":\"invalid Authorization header format\"}'')
   \<and> extractUserContext (request_with
         [(''Authorization'', [''Bearer abc'']), (''X-User-ID'', [''u1'']),
          (''X-User-Email'', [''u1@example.com''])])
     = Inr \<lparr>UserID = ''u1'', Email = ''u1@example.com'', Name = [], SessionID = [],
            Token = ''abc'', RequestID = []\<rparr>
   \<and> (\<exists>r' s'. (\<forall>next. AuthenticationMiddleware next (request_with
         [(''Authorization'', [''Bearer abc'']), (''X-User-ID'', [''u1'']),
          (''X-User-Email'', [''u1@example.com''])]) initial_state = next r' s')
          \<and> GetUserContext (Context r')
             = (Some \<lparr>UserID = ''u1'', Email = ''u1@example.com'', Name = [], SessionID = [],
                      Token = ''abc'', RequestID = []\<rparr>, True))"
proof -
  have f: "extractUserContext (request_with [(''Authorization'', [''Token abc''])])
             = Inl (Errorf ''invalid Authorization header format'')"
    by (simp add: request_with_def Header_Get_def extractUserContext_def HasPrefix_def)
  have i: "w_status (resp initial_state) = None \<and> w_body (resp initial_state) = []"
    by (simp add: initial_state_def new_writer_def)
  have g: "extractUserContext (request_with
         [(''Authorization'', [''Bearer abc'']), (''X-User-ID'', [''u1'']),
          (''X-User-Email'', [''u1@example.com''])])
     = Inr \<lparr>UserID = ''u1'', Email = ''u1@example.com'', Name = [], SessionID = [],
            Token = ''abc'', RequestID = []\<rparr>"
    by (simp add: request_with_def Header_Get_def extractUserContext_def HasPrefix_def
        TrimPrefix_def)
  from strict_gate [where r = "request_with [(''Authorization'', [''Token abc''])]"
      and err = "Errorf ''invalid Authorization header format''" and s = initial_state] f i
  have 1: "\<exists>s'. (\<forall>next. AuthenticationMiddleware next
                 (request_with [(''Authorization'', [''Token abc''])]) initial_state = s')
          \<and> w_status (resp s') = Some 401
          \<and> w_body (resp s') =
              ''{\"error\":\"authentication required\",\"message\":\"invalid Authorization header format\"}''"
    by auto
  from strict_gate [where r = "request_with
         [(''Authorization'', [''Bearer abc'']), (''X-User-ID'', [''u1'']),
          (''X-User-Email'', [''u1@example.com''])]"
      and u = "\<lparr>UserID = ''u1'', Email = ''u1@example.com'', Name = [], SessionID = [],
            Token = ''abc'', RequestID = []\<rparr>" and s = initial_state] g
  have 2: "\<exists>r' s'. (\<forall>next. AuthenticationMiddleware next (request_with
         [(''Authorization'', [''Bearer abc'']), (''X-User-ID'', [''u1'']),
          (''X-User-Email'', [''u1@example.com''])]) initial_state = next r' s')
          \<and> GetUserContext (Context r')
             = (Some \<lparr>UserID = ''u1'', Email = ''u1@example.com'', Name = [], SessionID = [],
                      Token = ''abc'', RequestID = []\<rparr>, True)"
    by blast
  from f i g 1 2 show ?thesis by blast
qed

text \<open>
  C4. Optional policy. When extraction fails, the gate calls the downstream handler with
  the request as it came, so a lookup on a request that arrived without an identity finds
  none; whatever the outcome of extraction, the gate hands the response on unwritten as
  it received it (no 401, no error body); when extraction succeeds, the request handed
  on is the one the strict gate hands on, with the record attached.
\<close>

theorem optional_gate:
  "(extractUserContext r = Inl err \<and> GetUserContext (Context r) = (None, False)
     \<longrightarrow> (\<exists>r' s'. (\<forall>next. OptionalAuthenticationMiddleware next r s = next r' s')
              \<and> r' = r \<and> GetUserContext (Context r') = (None, False)))
   \<and> (\<exists>r' s'. (\<forall>next. OptionalAuthenticationMiddleware next r s = next r' s')
              \<and> resp s' = resp s)
   \<and> (extractUserContext r = Inr u
     \<longrightarrow> (\<exists>r' s' s''.
              (\<forall>next. OptionalAuthenticationMiddleware next r s = next r' s')
              \<and> (\<forall>next. AuthenticationMiddleware next r s = next r' s'')
              \<and> GetUserContext (Context r') = (Some u, True)))"
proof (intro conjI impI)
  assume a: "extractUserContext r = Inl err \<and> GetUserContext (Context r) = (None, False)"
  then have "\<forall>next. OptionalAuthenticationMiddleware next r s =
     next r (s\<lparr>logs := logs s @
        [LogEntry DebugLevel [(''error'', Error err), (''path'', URL_Path r)]
           ''No authentication context, continuing without user context'']\<rparr>)"
    by (simp add: optional_on_failure)
  with a show "\<exists>r' s'. (\<forall>next. OptionalAuthenticationMiddleware next r s = next r' s')
              \<and> r' = r \<and> GetUserContext (Context r') = (None, False)"
    by blast
next
  show "\<exists>r' s'. (\<forall>next. OptionalAuthenticationMiddleware next r s = next r' s')
              \<and> resp s' = resp s"
  proof (cases "extractUserContext r")
    case (Inl err)
    have "resp (s\<lparr>logs := logs s @
        [LogEntry DebugLevel [(''error'', Error err), (''path'', URL_Path r)]
           ''No authentication context, continuing without user context'']\<rparr>) = resp s"
      by simp
    with optional_on_failure [OF Inl, of _ s] show ?thesis by blast
  next
    case (Inr u)
    have "resp (s\<lparr>logs := logs s @
          [LogEntry DebugLevel [(''user_id'', UserID u), (''user_email'', Email u)]
             ''Authenticated request'']\<rparr>) = resp s"
      by simp
    with optional_on_success [OF Inr, of _ s] show ?thesis by blast
  qed
next
  assume a: "extractUserContext r = Inr u"
  have "GetUserContext (Context (r\<lparr>Context := WithUserContext (Context r) (Some u)\<rparr>))
          = (Some u, True)"
    by (simp add: GetUserContext_WithUserContext)
  with optional_on_success [OF a, of _ s] strict_on_success [OF a, of _ s]
  show "\<exists>r' s' s''.
              (\<forall>next. OptionalAuthenticationMiddleware next r s = next r' s')
              \<and> (\<forall>next. AuthenticationMiddleware next r s = next r' s'')
              \<and> GetUserContext (Context r') = (Some u, True)"
    by blast
qed

theorem optional_gate_witness:
  "extractUserContext (request_with []) = Inl (Errorf ''missing Authorization header'')
   \<and> GetUserContext (Context (request_with [])) = (None, False)
   \<and> (\<exists>r' s'. (\<forall>next. OptionalAuthenticationMiddleware next (request_with [])
                    initial_state = next r' s')
          \<and> r' = request_with [] \<and> GetUserContext (Context r') = (None, False))
   \<and> extractUserContext (request_with
         [(''Authorization'', [''Bearer abc'']), (''X-User-ID'', [''u1'']),
          (''X-User-Email'', [''u1@example.com''])])
     = Inr \<lparr>UserID = ''u1'', Email = ''u1@example.com'', Name = [], SessionID = [],
            Token = ''abc'', RequestID = []\<rparr>
   \<and> (\<exists>r' s' s''.
         (\<forall>next. OptionalAuthenticationMiddleware next (request_with
            [(''Authorization'', [''Bearer abc'']), (''X-User-ID'', [''u1'']),
             (''X-User-Email'', [''u1@example.com''])]) initial_state = next r' s')
         \<and> (\<forall>next. AuthenticationMiddleware next (request_with
            [(''Authorization'', [''Bearer abc'']), (''X-User-ID'', [''u1'']),
             (''X-User-Email'', [''u1@example.com''])]) initial_state = next r' s'')
         \<and> GetUserContext (Context r')
            = (Some \<lparr>UserID = ''u1'', Email = ''u1@example.com'', Name = [], SessionID = [],
                     Token = ''abc'', RequestID = []\<rparr>, True))
   \<and> w_body (resp (OptionalAuthenticationMiddleware report_identity (request_with [])
         initial_state)) = ''anonymous''"
proof -
  have f: "extractUserContext (request_with []) = Inl (Errorf ''missing Authorization header'')"
    by (simp add: request_with_def Header_Get_def extractUserContext_def)
  have c: "GetUserContext (Context (request_with [])) = (None, False)"
    by (simp add: request_with_def GetUserContext_def context_Value_def)
  have g: "extractUserContext (request_with
         [(''Authorization'', [''Bearer abc'']), (''X-User-ID'', [''u1'']),
          (''X-User-Email'', [''u1@example.com''])])
     = Inr \<lparr>UserID = ''u1'', Email = ''u1@example.com'', Name = [], SessionID = [],
            Token = ''abc'', RequestID = []\<rparr>"
    by (simp add: request_with_def Header_Get_def extractUserContext_def HasPrefix_def
        TrimPrefix_def)
  from optional_gate [where r = "request_with []"
      and err = "Errorf ''missing Authorization header''" and s = initial_state] f c
  have 1: "\<exists>r' s'. (\<forall>next. OptionalAuthenticationMiddleware next (request_with [])
                    initial_state = next r' s')
          \<and> r' = request_with [] \<and> GetUserContext (Context r') = (None, False)"
    by blast
  from optional_gate [where r = "request_with
         [(''Authorization'', [''Bearer abc'']), (''X-User-ID'', [''u1'']),
          (''X-User-Email'', [''u1@example.com''])]"
      and u = "\<lparr>UserID = ''u1'', Email = ''u1@example.com'', Name = [], SessionID = [],
            Token = ''abc'', RequestID = []\<rparr>" and s = initial_state] g
  have 2: "\<exists>r' s' s''.
         (\<forall>next. OptionalAuthenticationMiddleware next (request_with
            [(''Authorization'', [''Bearer abc'']), (''X-User-ID'', [''u1'']),
             (''X-User-Email'', [''u1@example.com''])]) initial_state = next r' s')
         \<and> (\<forall>next. AuthenticationMiddleware next (request_with
            [(''Authorization'', [''Bearer abc'']), (''X-User-ID'', [''u1'']),
             (''X-User-Email'', [''u1@example.com''])]) initial_state = next r' s'')
         \<and> GetUserContext (Context r')
            = (Some \<lparr>UserID = ''u1'', Email = ''u1@example.com'', Name = [], SessionID = [],
                     Token = ''abc'', RequestID = []\<rparr>, True)"
    by blast
  have 3: "w_body (resp (OptionalAuthenticationMiddleware report_identity (request_with [])
         initial_state)) = ''anonymous''"
    by (simp add: optional_on_failure [OF f] report_identity_def c on_writer_def Write_def
        WriteHeader_def initial_state_def new_writer_def)
  from f c g 1 2 3 show ?thesis by blast
qed

text \<open>
  C6. A request whose Authorization value is the bearer prefix followed by a token, and
  whose X-User-ID and X-User-Email are non-empty, extracts to the record holding the
  token, both claims and the three optional headers as read; the strict gate hands the
  downstream handler a request on whose context the lookup returns that record with
  \<open>true\<close>. The lookup returns a pair in every case: a pointer with \<open>true\<close>, or nil with
  \<open>false\<close>, the latter on every context where the key is unset.
\<close>

theorem lookup_after_extraction:
  "(Header_Get (Header r) ''Authorization'' = ''Bearer '' @ tok
      \<and> Header_Get (Header r) ''X-User-ID'' \<noteq> []
      \<and> Header_Get (Header r) ''X-User-Email'' \<noteq> []
     \<longrightarrow> (\<exists>u. extractUserContext r = Inr u
            \<and> u = \<lparr>UserID = Header_Get (Header r) ''X-User-ID'',
                    Email = Header_Get (Header r) ''X-User-Email'',
                    Name = Header_Get (Header r) ''X-User-Name'',
                    SessionID = Header_Get (Header r) ''X-Session-ID'',
                    Token = tok,
                    RequestID = Header_Get (Header r) ''X-Gateway-Request-ID''\<rparr>
            \<and> UserID u \<noteq> [] \<and> Email u \<noteq> [] \<and> Token u = tok
            \<and> (\<exists>r' s'. (\<forall>next. AuthenticationMiddleware next r s = next r' s')
                  \<and> GetUserContext (Context r') = (Some u, True))))
   \<and> ((\<exists>p. GetUserContext ctx = (p, True)) \<or> GetUserContext ctx = (None, False))
   \<and> (context_Value ctx userContextKey = None \<longrightarrow> GetUserContext ctx = (None, False))
   \<and> GetUserContext (WithUserContext ctx (Some v)) = (Some v, True)"
proof (intro conjI impI)
  assume a: "Header_Get (Header r) ''Authorization'' = ''Bearer '' @ tok
      \<and> Header_Get (Header r) ''X-User-ID'' \<noteq> []
      \<and> Header_Get (Header r) ''X-User-Email'' \<noteq> []"
  let ?u = "\<lparr>UserID = Header_Get (Header r) ''X-User-ID'',
                    Email = Header_Get (Header r) ''X-User-Email'',
                    Name = Header_Get (Header r) ''X-User-Name'',
                    SessionID = Header_Get (Header r) ''X-Session-ID'',
                    Token = tok,
                    RequestID = Header_Get (Header r) ''X-Gateway-Request-ID''\<rparr>"
  from a have e: "extractUserContext r = Inr ?u"
    by (simp add: extract_ok)
  have "GetUserContext (Context (r\<lparr>Context := WithUserContext (Context r) (Some ?u)\<rparr>))
          = (Some ?u, True)"
    by (simp add: GetUserContext_WithUserContext)
  with strict_on_success [OF e, of _ s]
  have "\<exists>r' s'. (\<forall>next. AuthenticationMiddleware next r s = next r' s')
                  \<and> GetUserContext (Context r') = (Some ?u, True)"
    by blast
  moreover from a have "UserID ?u \<noteq> [] \<and> Email ?u \<noteq> [] \<and> Token ?u = tok"
    by simp
  ultimately show "\<exists>u. extractUserContext r = Inr u
            \<and> u = ?u
            \<and> UserID u \<noteq> [] \<and> Email u \<noteq> [] \<and> Token u = tok
            \<and> (\<exists>r' s'. (\<forall>next. AuthenticationMiddleware next r s = next r' s')
                  \<and> GetUserContext (Context r') = (Some u, True))"
    using e by blast
next
  show "(\<exists>p. GetUserContext ctx = (p, True)) \<or> GetUserContext ctx = (None, False)"
    by (rule GetUserContext_shape)
next
  assume "context_Value ctx userContextKey = None"
  then show "GetUserContext ctx = (None, False)"
    by (rule GetUserContext_unset)
next
  show "GetUserContext (WithUserContext ctx (Some v)) = (Some v, True)"
    by (rule GetUserContext_WithUserContext)
qed

theorem lookup_after_extraction_witness:
  "Header_Get (Header (request_with
       [(''Authorization'', [''Bearer abc'']), (''X-User-ID'', [''u1'']),
        (''X-User-Email'', [''u1@example.com'']), (''X-User-Name'', [''Ada''])]))
     ''Authorization'' = ''Bearer '' @ ''abc''
   \<and> extractUserContext (request_with
       [(''Authorization'', [''Bearer abc'']), (''X-User-ID'', [''u1'']),
        (''X-User-Email'', [''u1@example.com'']), (''X-User-Name'', [''Ada''])])
     = Inr \<lparr>UserID = ''u1'', Email = ''u1@example.com'', Name = ''Ada'', SessionID = [],
            Token = ''abc'', RequestID = []\<rparr>
   \<and> (\<exists>r' s'. (\<forall>next. AuthenticationMiddleware next (request_with
       [(''Authorization'', [''Bearer abc'']), (''X-User-ID'', [''u1'']),
        (''X-User-Email'', [''u1@example.com'']), (''X-User-Name'', [''Ada''])])
           initial_state = next r' s')
         \<and> GetUserContext (Context r')
            = (Some \<lparr>UserID = ''u1'', Email = ''u1@example.com'', Name = ''Ada'',
                     SessionID = [], Token = ''abc'', RequestID = []\<rparr>, True))
   \<and> context_Value [(other_key ''trace'', other_value ''t1'')] userContextKey = None
   \<and> GetUserContext [(other_key ''trace'', other_value ''t1'')] = (None, False)"
proof -
  have h: "Header_Get (Header (request_with
       [(''Authorization'', [''Bearer abc'']), (''X-User-ID'', [''u1'']),
        (''X-User-Email'', [''u1@example.com'']), (''X-User-Name'', [''Ada''])]))
     ''Authorization'' = ''Bearer '' @ ''abc''
     \<and> Header_Get (Header (request_with
       [(''Authorization'', [''Bearer abc'']), (''X-User-ID'', [''u1'']),
        (''X-User-Email'', [''u1@example.com'']), (''X-User-Name'', [''Ada''])]))
     ''X-User-ID'' \<noteq> []
     \<and> Header_Get (Header (request_with
       [(''Authorization'', [''Bearer abc'']), (''X-User-ID'', [''u1'']),
        (''X-User-Email'', [''u1@example.com'']), (''X-User-Name'', [''Ada''])]))
     ''X-User-Email'' \<noteq> []"
    by (simp add: request_with_def Header_Get_def)
  have k: "context_Value [(other_key ''trace'', other_value ''t1'')] userContextKey = None"
    by (simp add: context_Value_def userContextKey_def)
  from lookup_after_extraction [where r = "request_with
       [(''Authorization'', [''Bearer abc'']), (''X-User-ID'', [''u1'']),
        (''X-User-Email'', [''u1@example.com'']), (''X-User-Name'', [''Ada''])]"
      and tok = "''abc''" and s = initial_state
      and ctx = "[(other_key ''trace'', other_value ''t1'')]"] h k
  show ?thesis
    by (simp add: request_with_def Header_Get_def)
qed

text \<open>
  C3. On an inbound request, under either policy, a lookup by the downstream handler
  finds either nothing, or a record whose subject identifier and email are non-empty and
  whose credential is present in the sense the extractor gives the word: it is what
  followed the bearer prefix of the Authorization header, accepted as it is. A record that
  lacks one of the required elements is never built or handed on: when extraction fails
  nothing is attached, the strict gate does not call the handler and the optional gate
  hands the request on as it came.
\<close>

theorem identity_absent_or_complete:
  assumes "GetUserContext (Context r) = (None, False)"
  shows "(((\<exists>err. extractUserContext r = Inl err)
           \<and> (\<exists>s'. \<forall>next. AuthenticationMiddleware next r s = s'))
          \<or> (\<exists>r' s' u. extractUserContext r = Inr u
                \<and> (\<forall>next. AuthenticationMiddleware next r s = next r' s')
                \<and> GetUserContext (Context r') = (Some u, True)
                \<and> UserID u \<noteq> [] \<and> Email u \<noteq> []
                \<and> Header_Get (Header r') ''Authorization'' = ''Bearer '' @ Token u))
       \<and> (((\<exists>err. extractUserContext r = Inl err)
            \<and> (\<exists>s'. \<forall>next. OptionalAuthenticationMiddleware next r s = next r s')
            \<and> GetUserContext (Context r) = (None, False))
          \<or> (\<exists>r' s' u. extractUserContext r = Inr u
                \<and> (\<forall>next. OptionalAuthenticationMiddleware next r s = next r' s')
                \<and> GetUserContext (Context r') = (Some u, True)
                \<and> UserID u \<noteq> [] \<and> Email u \<noteq> []
                \<and> Header_Get (Header r') ''Authorization'' = ''Bearer '' @ Token u))"
proof (cases "extractUserContext r")
  case (Inl err)
  have "\<forall>next. AuthenticationMiddleware next r s = AuthenticationMiddleware undefined r s"
    using Inl by (simp add: AuthenticationMiddleware_def)
  then have 1: "\<exists>s'. \<forall>next. AuthenticationMiddleware next r s = s'"
    by blast
  from optional_on_failure [OF Inl, of _ s]
  have 2: "\<exists>s'. \<forall>next. OptionalAuthenticationMiddleware next r s = next r s'"
    by blast
  from Inl 1 2 assms show ?thesis by blast
next
  case (Inr u)
  let ?r' = "r\<lparr>Context := WithUserContext (Context r) (Some u)\<rparr>"
  have l: "GetUserContext (Context ?r') = (Some u, True)"
    by (simp add: GetUserContext_WithUserContext)
  from extract_Inr_fields [OF Inr]
  have f: "UserID u \<noteq> [] \<and> Email u \<noteq> []
           \<and> Header_Get (Header ?r') ''Authorization'' = ''Bearer '' @ Token u"
    by simp
  from strict_on_success [OF Inr, of _ s] l f Inr
  have 1: "\<exists>r' s' u. extractUserContext r = Inr u
                \<and> (\<forall>next. AuthenticationMiddleware next r s = next r' s')
                \<and> GetUserContext (Context r') = (Some u, True)
                \<and> UserID u \<noteq> [] \<and> Email u \<noteq> []
                \<and> Header_Get (Header r') ''Authorization'' = ''Bearer '' @ Token u"
    by blast
  from optional_on_success [OF Inr, of _ s] l f Inr
  have 2: "\<exists>r' s' u. extractUserContext r = Inr u
                \<and> (\<forall>next. OptionalAuthenticationMiddleware next r s = next r' s')
                \<and> GetUserContext (Context r') = (Some u, True)
                \<and> UserID u \<noteq> [] \<and> Email u \<noteq> []
                \<and> Header_Get (Header r') ''Authorization'' = ''Bearer '' @ Token u"
    by blast
  from 1 2 show ?thesis by blast
qed

theorem identity_absent_or_complete_witness:
  "GetUserContext (Context (request_with
      [(''Authorization'', [''Bearer abc'']), (''X-User-ID'', [''u1''])])) = (None, False)
   \<and> extractUserContext (request_with
      [(''Authorization'', [''Bearer abc'']), (''X-User-ID'', [''u1''])])
     = Inl (Errorf ''missing required user context headers (X-User-ID or X-User-Email)'')
   \<and> (\<exists>s'. \<forall>next. AuthenticationMiddleware next (request_with
      [(''Authorization'', [''Bearer abc'']), (''X-User-ID'', [''u1''])]) initial_state = s')
   \<and> (\<exists>s'. \<forall>next. OptionalAuthenticationMiddleware next (request_with
      [(''Authorization'', [''Bearer abc'']), (''X-User-ID'', [''u1''])]) initial_state
        = next (request_with
      [(''Authorization'', [''Bearer abc'']), (''X-User-ID'', [''u1''])]) s')
   \<and> w_body (resp (OptionalAuthenticationMiddleware report_identity (request_with
      [(''Authorization'', [''Bearer abc'']), (''X-User-ID'', [''u1''])]) initial_state))
     = ''anonymous''
   \<and> GetUserContext (Context (request_with
      [(''Authorization'', [''Bearer abc'']), (''X-User-ID'', [''u1'']),
       (''X-User-Email'', [''u1@example.com''])])) = (None, False)
   \<and> (\<exists>r' s' u. (\<forall>next. AuthenticationMiddleware next (request_with
      [(''Authorization'', [''Bearer abc'']), (''X-User-ID'', [''u1'']),
       (''X-User-Email'', [''u1@example.com''])]) initial_state = next r' s')
         \<and> GetUserContext (Context r') = (Some u, True)
         \<and> UserID u \<noteq> [] \<and> Email u \<noteq> []
         \<and> Header_Get (Header r') ''Authorization'' = ''Bearer '' @ Token u)"
proof -
  let ?r = "request_with [(''Authorization'', [''Bearer abc'']), (''X-User-ID'', [''u1''])]"
  have c: "GetUserContext (Context ?r) = (None, False)"
    by (simp add: request_with_def GetUserContext_def context_Value_def)
  have f: "extractUserContext ?r
     = Inl (Errorf ''missing required user context headers (X-User-ID or X-User-Email)'')"
    by (simp add: request_with_def Header_Get_def extractUserContext_def HasPrefix_def)
  from identity_absent_or_complete [OF c, of initial_state] f
  have 1: "(\<exists>s'. \<forall>next. AuthenticationMiddleware next ?r initial_state = s')
        \<and> (\<exists>s'. \<forall>next. OptionalAuthenticationMiddleware next ?r initial_state = next ?r s')"
    by simp
  have 3: "w_body (resp (OptionalAuthenticationMiddleware report_identity ?r initial_state))
             = ''anonymous''"
    by (simp add: optional_on_failure [OF f] report_identity_def c on_writer_def Write_def
        WriteHeader_def initial_state_def new_writer_def)
  let ?q = "request_with [(''Authorization'', [''Bearer abc'']), (''X-User-ID'', [''u1'']),
       (''X-User-Email'', [''u1@example.com''])]"
  have d: "GetUserContext (Context ?q) = (None, False)"
    by (simp add: request_with_def GetUserContext_def context_Value_def)
  have g: "extractUserContext ?q
     = Inr \<lparr>UserID = ''u1'', Email = ''u1@example.com'', Name = [], SessionID = [],
            Token = ''abc'', RequestID = []\<rparr>"
    by (simp add: request_with_def Header_Get_def extractUserContext_def HasPrefix_def
        TrimPrefix_def)
  have n: "\<not> (\<exists>err. extractUserContext ?q = Inl err)"
    using g by simp
  from identity_absent_or_complete [OF d, of initial_state, THEN conjunct1] n
  have 4: "\<exists>r' s' u. (\<forall>next. AuthenticationMiddleware next ?q initial_state = next r' s')
         \<and> GetUserContext (Context r') = (Some u, True)
         \<and> UserID u \<noteq> [] \<and> Email u \<noteq> []
         \<and> Header_Get (Header r') ''Authorization'' = ''Bearer '' @ Token u"
    by blast
  from c f 1 3 d 4 show ?thesis by blast
qed

section \<open>Claims about the CORS envelope and the open endpoints\<close>

lemma addSimpleCORS_stamped:
  "addSimpleCORS next r s =
     (if Method r = ''OPTIONS'' then on_writer (WriteHeader 200) (cors_stamped s)
      else next r (cors_stamped s))"
  by (simp add: addSimpleCORS_def cors_stamped_def Let_def)

lemma stamped_origin:
  "w_header (resp (cors_stamped s)) ''Access-Control-Allow-Origin'' = Some [''*'']"
  by (simp add: cors_stamped_def on_writer_def SetHeader_def Header_Set_def)

lemma stamped_methods:
  "w_header (resp (cors_stamped s)) ''Access-Control-Allow-Methods''
     = Some [''GET, POST, PUT, DELETE, OPTIONS'']"
  by (simp add: cors_stamped_def on_writer_def SetHeader_def Header_Set_def)

lemma stamped_headers:
  "w_header (resp (cors_stamped s)) ''Access-Control-Allow-Headers''
     = Some [''Authorization, Content-Type, X-User-ID, X-User-Email, X-User-Name, X-Session-ID, X-Gateway-Request-ID'']"
  by (simp add: cors_stamped_def on_writer_def SetHeader_def Header_Set_def)

lemma stamped_rest:
  "w_body (resp (cors_stamped s)) = w_body (resp s)"
  "w_status (resp (cors_stamped s)) = w_status (resp s)"
  "w_sent (resp (cors_stamped s)) = w_sent (resp s)"
  "logs (cors_stamped s) = logs s" "clock (cors_stamped s) = clock s"
  by (simp_all add: cors_stamped_def on_writer_def SetHeader_def)

lemma options_written:
  assumes "w_status (resp s) = None"
  shows "w_status (resp (on_writer (WriteHeader 200) (cors_stamped s))) = Some 200"
    and "w_body (resp (on_writer (WriteHeader 200) (cors_stamped s))) = w_body (resp s)"
    and "w_sent (resp (on_writer (WriteHeader 200) (cors_stamped s)))
           = w_header (resp (cors_stamped s))"
    and "w_header (resp (on_writer (WriteHeader 200) (cors_stamped s)))
           = w_header (resp (cors_stamped s))"
    and "logs (on_writer (WriteHeader 200) (cors_stamped s)) = logs s"
  using assms by (simp_all add: on_writer_def WriteHeader_def stamped_rest)

lemma allow_methods_list:
  "join_comma [''GET'', ''POST'', ''PUT'', ''DELETE'', ''OPTIONS'']
     = ''GET, POST, PUT, DELETE, OPTIONS''"
  by simp

lemma allow_headers_list:
  "join_comma [''Authorization'', ''Content-Type'', ''X-User-ID'', ''X-User-Email'',
               ''X-User-Name'', ''X-Session-ID'', ''X-Gateway-Request-ID'']
     = ''Authorization, Content-Type, X-User-ID, X-User-Email, X-User-Name, X-Session-ID, X-Gateway-Request-ID''"
  by simp

text \<open>
  C7. Whatever the path and the method, the envelope first sets three headers on the
  response: the origin-allow header to \<open>*\<close>, the method allow-list to GET, POST, PUT,
  DELETE, OPTIONS, and the header allow-list to Authorization, Content-Type, X-User-ID,
  X-User-Email, X-User-Name, X-Session-ID, X-Gateway-Request-ID. For a method other than
  OPTIONS it then calls the routed handler on that response. For OPTIONS, on any path,
  it writes status 200 and returns: the routed handler is not called, so no
  authentication check runs, and on a response not yet written the status is 200, the
  body is empty and the three headers went out.
\<close>

theorem cors_envelope:
  "(\<exists>s'. (if Method r = ''OPTIONS'' then \<forall>next. addSimpleCORS next r s = s'
           else \<forall>next. addSimpleCORS next r s = next r s')
         \<and> w_header (resp s') ''Access-Control-Allow-Origin'' = Some [''*'']
         \<and> w_header (resp s') ''Access-Control-Allow-Methods''
             = Some [join_comma [''GET'', ''POST'', ''PUT'', ''DELETE'', ''OPTIONS'']]
         \<and> w_header (resp s') ''Access-Control-Allow-Headers''
             = Some [join_comma [''Authorization'', ''Content-Type'', ''X-User-ID'',
                   ''X-User-Email'', ''X-User-Name'', ''X-Session-ID'',
                   ''X-Gateway-Request-ID'']]
         \<and> w_body (resp s') = w_body (resp s) \<and> logs s' = logs s)
   \<and> (Method r = ''OPTIONS'' \<and> w_status (resp s) = None \<and> w_body (resp s) = []
      \<longrightarrow> (\<exists>s'. (\<forall>cfg allowUnauthenticated SSEHandler MessageHandler unmatched.
                     corsHandler cfg allowUnauthenticated SSEHandler MessageHandler unmatched
                       r s = s')
              \<and> w_status (resp s') = Some 200 \<and> w_body (resp s') = []
              \<and> w_sent (resp s') ''Access-Control-Allow-Origin'' = Some [''*'']
              \<and> w_sent (resp s') ''Access-Control-Allow-Methods''
                  = Some [''GET, POST, PUT, DELETE, OPTIONS'']
              \<and> w_sent (resp s') ''Access-Control-Allow-Headers''
                  = Some [''Authorization, Content-Type, X-User-ID, X-User-Email, X-User-Name, X-Session-ID, X-Gateway-Request-ID'']))"
proof (intro conjI impI)
  show "\<exists>s'. (if Method r = ''OPTIONS'' then \<forall>next. addSimpleCORS next r s = s'
           else \<forall>next. addSimpleCORS next r s = next r s')
         \<and> w_header (resp s') ''Access-Control-Allow-Origin'' = Some [''*'']
         \<and> w_header (resp s') ''Access-Control-Allow-Methods''
             = Some [join_comma [''GET'', ''POST'', ''PUT'', ''DELETE'', ''OPTIONS'']]
         \<and> w_header (resp s') ''Access-Control-Allow-Headers''
             = Some [join_comma [''Authorization'', ''Content-Type'', ''X-User-ID'',
                   ''X-User-Email'', ''X-User-Name'', ''X-Session-ID'',
                   ''X-Gateway-Request-ID'']]
         \<and> w_body (resp s') = w_body (resp s) \<and> logs s' = logs s"
    unfolding allow_methods_list allow_headers_list
  proof (cases "Method r = ''OPTIONS''")
    case True
    let ?s' = "on_writer (WriteHeader 200) (cors_stamped s)"
    have h: "w_header (resp ?s') = w_header (resp (cors_stamped s))"
      and b: "w_body (resp ?s') = w_body (resp s)" and l: "logs ?s' = logs s"
      by (simp_all add: on_writer_def WriteHeader_def stamped_rest)
    have "\<forall>next. addSimpleCORS next r s = ?s'"
      using True by (simp add: addSimpleCORS_stamped)
    with True h b l stamped_origin [of s] stamped_methods [of s] stamped_headers [of s]
    show "\<exists>s'. (if Method r = ''OPTIONS'' then \<forall>next. addSimpleCORS next r s = s'
           else \<forall>next. addSimpleCORS next r s = next r s')
         \<and> w_header (resp s') ''Access-Control-Allow-Origin'' = Some [''*'']
         \<and> w_header (resp s') ''Access-Control-Allow-Methods''
             = Some [''GET, POST, PUT, DELETE, OPTIONS'']
         \<and> w_header (resp s') ''Access-Control-Allow-Headers''
             = Some [''Authorization, Content-Type, X-User-ID, X-User-Email, X-User-Name, X-Session-ID, X-Gateway-Request-ID'']
         \<and> w_body (resp s') = w_body (resp s) \<and> logs s' = logs s"
      by (intro exI [of _ ?s']) (simp only: if_True simp_thms)
  next
    case False
    have "\<forall>next. addSimpleCORS next r s = next r (cors_stamped s)"
      using False by (simp add: addSimpleCORS_stamped)
    with False stamped_rest(1,4) [of s]
      stamped_origin [of s] stamped_methods [of s] stamped_headers [of s]
    show "\<exists>s'. (if Method r = ''OPTIONS'' then \<forall>next. addSimpleCORS next r s = s'
           else \<forall>next. addSimpleCORS next r s = next r s')
         \<and> w_header (resp s') ''Access-Control-Allow-Origin'' = Some [''*'']
         \<and> w_header (resp s') ''Access-Control-Allow-Methods''
             = Some [''GET, POST, PUT, DELETE, OPTIONS'']
         \<and> w_header (resp s') ''Access-Control-Allow-Headers''
             = Some [''Authorization, Content-Type, X-User-ID, X-User-Email, X-User-Name, X-Session-ID, X-Gateway-Request-ID'']
         \<and> w_body (resp s') = w_body (resp s) \<and> logs s' = logs s"
      by (intro exI [of _ "cors_stamped s"]) (simp only: if_False simp_thms)
  qed
next
  assume a: "Method r = ''OPTIONS'' \<and> w_status (resp s) = None \<and> w_body (resp s) = []"
  let ?s' = "on_writer (WriteHeader 200) (cors_stamped s)"
  have "\<forall>cfg allowUnauthenticated SSEHandler MessageHandler unmatched.
          corsHandler cfg allowUnauthenticated SSEHandler MessageHandler unmatched r s = ?s'"
    using a by (simp add: corsHandler_def addSimpleCORS_stamped)
  moreover from a have "w_status (resp ?s') = Some 200" and "w_body (resp ?s') = []"
    and "w_sent (resp ?s') = w_header (resp (cors_stamped s))"
    by (simp_all add: options_written)
  ultimately show "\<exists>s'. (\<forall>cfg allowUnauthenticated SSEHandler MessageHandler unmatched.
                     corsHandler cfg allowUnauthenticated SSEHandler MessageHandler unmatched
                       r s = s')
              \<and> w_status (resp s') = Some 200 \<and> w_body (resp s') = []
              \<and> w_sent (resp s') ''Access-Control-Allow-Origin'' = Some [''*'']
              \<and> w_sent (resp s') ''Access-Control-Allow-Methods''
                  = Some [''GET, POST, PUT, DELETE, OPTIONS'']
              \<and> w_sent (resp s') ''Access-Control-Allow-Headers''
                  = Some [''Authorization, Content-Type, X-User-ID, X-User-Email, X-User-Name, X-Session-ID, X-Gateway-Request-ID'']"
    using stamped_origin [of s] stamped_methods [of s] stamped_headers [of s]
    by (intro exI [of _ ?s']) (simp only: simp_thms)
qed

theorem cors_envelope_witness:
  "Method options_request = ''OPTIONS''
   \<and> w_status (resp initial_state) = None \<and> w_body (resp initial_state) = []
   \<and> (\<exists>s'. (\<forall>cfg allowUnauthenticated SSEHandler MessageHandler unmatched.
               corsHandler cfg allowUnauthenticated SSEHandler MessageHandler unmatched
                 options_request initial_state = s')
          \<and> w_status (resp s') = Some 200 \<and> w_body (resp s') = []
          \<and> w_sent (resp s') ''Access-Control-Allow-Origin'' = Some [''*''])
   \<and> w_status (resp (corsHandler sample_config False report_identity report_identity
                       report_identity options_request initial_state)) = Some 200"
proof -
  have h: "Method options_request = ''OPTIONS''
           \<and> w_status (resp initial_state) = None \<and> w_body (resp initial_state) = []"
    by (simp add: options_request_def initial_state_def new_writer_def)
  from cors_envelope [of options_request initial_state] h
  have 1: "\<exists>s'. (\<forall>cfg allowUnauthenticated SSEHandler MessageHandler unmatched.
               corsHandler cfg allowUnauthenticated SSEHandler MessageHandler unmatched
                 options_request initial_state = s')
          \<and> w_status (resp s') = Some 200 \<and> w_body (resp s') = []
          \<and> w_sent (resp s') ''Access-Control-Allow-Origin'' = Some [''*'']"
    by blast
  then have "w_status (resp (corsHandler sample_config False report_identity report_identity
                       report_identity options_request initial_state)) = Some 200"
    by metis
  with h 1 show ?thesis by blast
qed

lemma mux_health: "map_of (mux cfg a S M) ''/health'' = Some healthHandler"
  by (simp add: mux_def Let_def)

lemma mux_status: "map_of (mux cfg a S M) ''/status'' = Some (statusHandler cfg a)"
  by (simp add: mux_def Let_def)

lemma corsHandler_forward:
  "Method r \<noteq> ''OPTIONS'' \<Longrightarrow>
   corsHandler cfg a S M um r s = ServeMux (mux cfg a S M) um r (cors_stamped s)"
  by (simp add: corsHandler_def addSimpleCORS_stamped)

lemma json_written:
  assumes "w_status (resp s) = None" and "w_body (resp s) = []"
  shows "w_status (resp (on_writer (Write bs) (on_writer (WriteHeader 200)
            (on_writer (SetHeader ''Content-Type'' ''application/json'') s)))) = Some 200"
    and "w_body (resp (on_writer (Write bs) (on_writer (WriteHeader 200)
            (on_writer (SetHeader ''Content-Type'' ''application/json'') s)))) = bs"
    and "w_sent (resp (on_writer (Write bs) (on_writer (WriteHeader 200)
            (on_writer (SetHeader ''Content-Type'' ''application/json'') s))))
           = (w_header (resp s))(''Content-Type'' \<mapsto> [''application/json''])"
    and "logs (on_writer (Write bs) (on_writer (WriteHeader 200)
            (on_writer (SetHeader ''Content-Type'' ''application/json'') s))) = logs s"
  using assms
  by (simp_all add: on_writer_def Write_def WriteHeader_def SetHeader_def Header_Set_def)

lemma healthHandler_eq:
  "healthHandler r s = on_writer (Write (''{\"status\":\"healthy\",\"timestamp\":\"''
        @ clock s @ ''\"}'')) (on_writer (WriteHeader 200)
            (on_writer (SetHeader ''Content-Type'' ''application/json'') s))"
  by (simp add: healthHandler_def Let_def on_writer_def)

lemma statusHandler_eq:
  "statusHandler cfg a r s = on_writer (Write (''{'' @ nl_tabs @ ''\"status\": \"running\",''
                   @ nl_tabs @ ''\"version\": \"'' @ Version cfg @ ''\",''
                   @ nl_tabs @ ''\"host\": \"'' @ Host cfg @ ''\",''
                   @ nl_tabs @ ''\"authentication_required\": '' @ fmt_bool (\<not> a) @ '',''
                   @ nl_tabs @ ''\"read_only\": '' @ fmt_bool (ReadOnly cfg) @ '',''
                   @ nl_tabs @ ''\"timestamp\": \"'' @ clock s @ ''\"''
                   @ [CHR 0x0A, CHR 0x09, CHR 0x09] @ ''}'')) (on_writer (WriteHeader 200)
            (on_writer (SetHeader ''Content-Type'' ''application/json'') s))"
  by (simp add: statusHandler_def Let_def on_writer_def)

text \<open>
  C8. A GET for \<open>/health\<close> is answered with status 200 and the body made of the
  \<open>status\<close> member \<open>healthy\<close> and the \<open>timestamp\<close> member holding the current time in
  RFC 3339 form; a GET for \<open>/status\<close> is answered with status 200 and an object whose
  members are \<open>status\<close> = \<open>running\<close>, the configured version and host,
  \<open>authentication_required\<close> = the negation of the allow-unauthenticated flag, the
  read-only flag and the current time. Both answers are the same for every set of request
  headers, and for every handler behind the authenticated routes.
\<close>

theorem health_and_status:
  "(Method r = ''GET'' \<and> URL_Path r = ''/health''
      \<and> w_status (resp s) = None \<and> w_body (resp s) = []
     \<longrightarrow> (\<exists>s'. (\<forall>h SSEHandler MessageHandler unmatched.
                    corsHandler cfg allowUnauthenticated SSEHandler MessageHandler unmatched
                      (r\<lparr>Header := h\<rparr>) s = s')
              \<and> w_status (resp s') = Some 200
              \<and> w_body (resp s') = ''{\"status\":\"healthy\",\"timestamp\":\"''
                                    @ clock s @ ''\"}''
              \<and> w_sent (resp s') ''Content-Type'' = Some [''application/json'']))
   \<and> (Method r = ''GET'' \<and> URL_Path r = ''/status''
      \<and> w_status (resp s) = None \<and> w_body (resp s) = []
     \<longrightarrow> (\<exists>s'. (\<forall>h SSEHandler MessageHandler unmatched.
                    corsHandler cfg allowUnauthenticated SSEHandler MessageHandler unmatched
                      (r\<lparr>Header := h\<rparr>) s = s')
              \<and> w_status (resp s') = Some 200
              \<and> w_body (resp s') =
                  ''{'' @ nl_tabs @ ''\"status\": \"running\",''
                   @ nl_tabs @ ''\"version\": \"'' @ Version cfg @ ''\",''
                   @ nl_tabs @ ''\"host\": \"'' @ Host cfg @ ''\",''
                   @ nl_tabs @ ''\"authentication_required\": ''
                       @ (if allowUnauthenticated then ''false'' else ''true'') @ '',''
                   @ nl_tabs @ ''\"read_only\": ''
                       @ (if ReadOnly cfg then ''true'' else ''false'') @ '',''
                   @ nl_tabs @ ''\"timestamp\": \"'' @ clock s @ ''\"''
                   @ [CHR 0x0A, CHR 0x09, CHR 0x09] @ ''}''
              \<and> w_sent (resp s') ''Content-Type'' = Some [''application/json'']))"
proof (intro conjI impI)
  assume a: "Method r = ''GET'' \<and> URL_Path r = ''/health''
      \<and> w_status (resp s) = None \<and> w_body (resp s) = []"
  let ?s' = "healthHandler r (cors_stamped s)"
  have "\<forall>h SSEHandler MessageHandler unmatched.
          corsHandler cfg allowUnauthenticated SSEHandler MessageHandler unmatched
            (r\<lparr>Header := h\<rparr>) s = ?s'"
    using a by (simp add: corsHandler_forward ServeMux_def mux_health healthHandler_eq)
  moreover have "w_status (resp ?s') = Some 200"
    and "w_body (resp ?s') = ''{\"status\":\"healthy\",\"timestamp\":\"'' @ clock s @ ''\"}''"
    and "w_sent (resp ?s') ''Content-Type'' = Some [''application/json'']"
    using a unfolding healthHandler_eq
    by (simp_all add: json_written stamped_rest)
  ultimately show "\<exists>s'. (\<forall>h SSEHandler MessageHandler unmatched.
                    corsHandler cfg allowUnauthenticated SSEHandler MessageHandler unmatched
                      (r\<lparr>Header := h\<rparr>) s = s')
              \<and> w_status (resp s') = Some 200
              \<and> w_body (resp s') = ''{\"status\":\"healthy\",\"timestamp\":\"''
                                    @ clock s @ ''\"}''
              \<and> w_sent (resp s') ''Content-Type'' = Some [''application/json'']"
    by (intro exI [of _ ?s']) (simp only: simp_thms)
next
  assume a: "Method r = ''GET'' \<and> URL_Path r = ''/status''
      \<and> w_status (resp s) = None \<and> w_body (resp s) = []"
  let ?s' = "statusHandler cfg allowUnauthenticated r (cors_stamped s)"
  let ?body = "''{'' @ nl_tabs @ ''\"status\": \"running\",''
                   @ nl_tabs @ ''\"version\": \"'' @ Version cfg @ ''\",''
                   @ nl_tabs @ ''\"host\": \"'' @ Host cfg @ ''\",''
                   @ nl_tabs @ ''\"authentication_required\": ''
                       @ (if allowUnauthenticated then ''false'' else ''true'') @ '',''
                   @ nl_tabs @ ''\"read_only\": ''
                       @ (if ReadOnly cfg then ''true'' else ''false'') @ '',''
                   @ nl_tabs @ ''\"timestamp\": \"'' @ clock s @ ''\"''
                   @ [CHR 0x0A, CHR 0x09, CHR 0x09] @ ''}''"
  have "\<forall>h SSEHandler MessageHandler unmatched.
          corsHandler cfg allowUnauthenticated SSEHandler MessageHandler unmatched
            (r\<lparr>Header := h\<rparr>) s = ?s'"
    using a by (simp add: corsHandler_forward ServeMux_def mux_status statusHandler_eq)
  moreover have "w_status (resp ?s') = Some 200"
    and "w_sent (resp ?s') ''Content-Type'' = Some [''application/json'']"
    using a unfolding statusHandler_eq
    by (simp_all add: json_written stamped_rest)
  moreover have "w_body (resp ?s') = ?body"
    using a unfolding statusHandler_eq
    by (simp add: json_written stamped_rest fmt_bool_def)
  ultimately show "\<exists>s'. (\<forall>h SSEHandler MessageHandler unmatched.
                    corsHandler cfg allowUnauthenticated SSEHandler MessageHandler unmatched
                      (r\<lparr>Header := h\<rparr>) s = s')
              \<and> w_status (resp s') = Some 200
              \<and> w_body (resp s') = ?body
              \<and> w_sent (resp s') ''Content-Type'' = Some [''application/json'']"
    by (intro exI [of _ ?s']) (simp only: simp_thms)
qed

theorem health_and_status_witness:
  "Method health_request = ''GET'' \<and> URL_Path health_request = ''/health''
   \<and> Method status_request = ''GET'' \<and> URL_Path status_request = ''/status''
   \<and> w_status (resp initial_state) = None \<and> w_body (resp initial_state) = []
   \<and> (\<exists>s'. (\<forall>h SSEHandler MessageHandler unmatched.
               corsHandler sample_config False SSEHandler MessageHandler unmatched
                 (health_request\<lparr>Header := h\<rparr>) initial_state = s')
          \<and> w_status (resp s') = Some 200
          \<and> w_body (resp s')
             = ''{\"status\":\"healthy\",\"timestamp\":\"2025-06-01T12:00:00Z\"}'')
   \<and> (\<exists>s'. (\<forall>h SSEHandler MessageHandler unmatched.
               corsHandler sample_config False SSEHandler MessageHandler unmatched
                 (status_request\<lparr>Header := h\<rparr>) initial_state = s')
          \<and> w_status (resp s') = Some 200
          \<and> w_body (resp s')
             = ''{'' @ nl_tabs @ ''\"status\": \"running\",''
                @ nl_tabs @ ''\"version\": \"1.2.3\",''
                @ nl_tabs @ ''\"host\": \"https://api.github.com\",''
                @ nl_tabs @ ''\"authentication_required\": true,''
                @ nl_tabs @ ''\"read_only\": true,''
                @ nl_tabs @ ''\"timestamp\": \"2025-06-01T12:00:00Z\"''
                @ [CHR 0x0A, CHR 0x09, CHR 0x09] @ ''}'')"
proof -
  have h: "Method health_request = ''GET'' \<and> URL_Path health_request = ''/health''
           \<and> w_status (resp initial_state) = None \<and> w_body (resp initial_state) = []"
    by (simp add: health_request_def initial_state_def new_writer_def)
  have t: "Method status_request = ''GET'' \<and> URL_Path status_request = ''/status''
           \<and> w_status (resp initial_state) = None \<and> w_body (resp initial_state) = []"
    by (simp add: status_request_def initial_state_def new_writer_def)
  have c: "clock initial_state = ''2025-06-01T12:00:00Z''"
    by (simp add: initial_state_def)
  have v: "Version sample_config = ''1.2.3''" "Host sample_config = ''https://api.github.com''"
    "ReadOnly sample_config"
    by (simp_all add: sample_config_def)
  from health_and_status [where r = health_request and s = initial_state
      and cfg = sample_config and allowUnauthenticated = False] h
  have 1: "\<exists>s'. (\<forall>h SSEHandler MessageHandler unmatched.
               corsHandler sample_config False SSEHandler MessageHandler unmatched
                 (health_request\<lparr>Header := h\<rparr>) initial_state = s')
          \<and> w_status (resp s') = Some 200
          \<and> w_body (resp s')
             = ''{\"status\":\"healthy\",\"timestamp\":\"2025-06-01T12:00:00Z\"}''"
    by (auto simp add: c)
  from health_and_status [where r = status_request and s = initial_state
      and cfg = sample_config and allowUnauthenticated = False] t
  have 2: "\<exists>s'. (\<forall>h SSEHandler MessageHandler unmatched.
               corsHandler sample_config False SSEHandler MessageHandler unmatched
                 (status_request\<lparr>Header := h\<rparr>) initial_state = s')
          \<and> w_status (resp s') = Some 200
          \<and> w_body (resp s')
             = ''{'' @ nl_tabs @ ''\"status\": \"running\",''
                @ nl_tabs @ ''\"version\": \"1.2.3\",''
                @ nl_tabs @ ''\"host\": \"https://api.github.com\",''
                @ nl_tabs @ ''\"authentication_required\": true,''
                @ nl_tabs @ ''\"read_only\": true,''
                @ nl_tabs @ ''\"timestamp\": \"2025-06-01T12:00:00Z\"''
                @ [CHR 0x0A, CHR 0x09, CHR 0x09] @ ''}''"
    by (auto simp add: c v)
  from h t 1 2 show ?thesis by blast
qed

section \<open>Claims about the wait for shutdown\<close>

text \<open>
  C5 (as amended). When the listener's accept loop ends with an error other than the
  closed-listener sentinel, the function returns at once: it does not call \<open>Shutdown\<close>,
  so no drain takes place, and what it returns is the listener's error wrapped in
  \<open>error running server\<close>. The drain, a single call of \<open>Shutdown\<close> with a budget of 30
  seconds whose result is returned, is what follows a termination signal, and also a
  listener that ends with no error or with the closed-listener sentinel.
\<close>

theorem listener_failure_returns_at_once:
  "(e \<noteq> ErrServerClosed
     \<longrightarrow> RunSSEServerWithSimpleAuth_wait Shutdown (errC (Some e))
         = \<lparr>shutdown_calls = [], run_logs = [],
            returned = Some (Errorf_w ''error running server: '' e)\<rparr>)
   \<and> shutdown_calls (RunSSEServerWithSimpleAuth_wait Shutdown ctx_Done) = [30 * time_Second]
   \<and> returned (RunSSEServerWithSimpleAuth_wait Shutdown ctx_Done) = Shutdown (30 * time_Second)
   \<and> (ev \<in> {errC None, errC (Some ErrServerClosed)}
     \<longrightarrow> shutdown_calls (RunSSEServerWithSimpleAuth_wait Shutdown ev) = [30 * time_Second]
         \<and> returned (RunSSEServerWithSimpleAuth_wait Shutdown ev) = Shutdown (30 * time_Second))"
proof (intro conjI impI)
  assume "e \<noteq> ErrServerClosed"
  then show "RunSSEServerWithSimpleAuth_wait Shutdown (errC (Some e))
         = \<lparr>shutdown_calls = [], run_logs = [],
            returned = Some (Errorf_w ''error running server: '' e)\<rparr>"
    by (simp add: RunSSEServerWithSimpleAuth_wait_def)
next
  show "shutdown_calls (RunSSEServerWithSimpleAuth_wait Shutdown ctx_Done) = [30 * time_Second]"
    and "returned (RunSSEServerWithSimpleAuth_wait Shutdown ctx_Done) = Shutdown (30 * time_Second)"
    by (simp_all add: RunSSEServerWithSimpleAuth_wait_def graceful_shutdown_def)
next
  assume "ev \<in> {errC None, errC (Some ErrServerClosed)}"
  then have "ev = errC None \<or> ev = errC (Some ErrServerClosed)"
    by blast
  then show "shutdown_calls (RunSSEServerWithSimpleAuth_wait Shutdown ev) = [30 * time_Second]"
    by (auto simp add: RunSSEServerWithSimpleAuth_wait_def graceful_shutdown_def)
next
  assume "ev \<in> {errC None, errC (Some ErrServerClosed)}"
  then have "ev = errC None \<or> ev = errC (Some ErrServerClosed)"
    by blast
  then show "returned (RunSSEServerWithSimpleAuth_wait Shutdown ev)
               = Shutdown (30 * time_Second)"
    by (auto simp add: RunSSEServerWithSimpleAuth_wait_def graceful_shutdown_def)
qed

theorem listener_failure_returns_at_once_witness:
  "Errorf ''accept tcp [::]:8080: too many open files'' \<noteq> ErrServerClosed
   \<and> RunSSEServerWithSimpleAuth_wait Shutdown_clean
        (errC (Some (Errorf ''accept tcp [::]:8080: too many open files'')))
      = \<lparr>shutdown_calls = [], run_logs = [],
         returned = Some (Errorf_w ''error running server: ''
                            (Errorf ''accept tcp [::]:8080: too many open files''))\<rparr>
   \<and> Error (Errorf_w ''error running server: ''
              (Errorf ''accept tcp [::]:8080: too many open files''))
      = ''error running server: accept tcp [::]:8080: too many open files''
   \<and> shutdown_calls (RunSSEServerWithSimpleAuth_wait Shutdown_clean (errC (Some ErrServerClosed)))
      = [30000000000]
   \<and> returned (RunSSEServerWithSimpleAuth_wait Shutdown_clean (errC (Some ErrServerClosed))) = None"
  using listener_failure_returns_at_once
      [where e = "Errorf ''accept tcp [::]:8080: too many open files''"
         and Shutdown = Shutdown_clean and ev = "errC (Some ErrServerClosed)"]
  by (simp add: Shutdown_clean_def time_Second_def)

text \<open>
  C5 as written has the listener's failure enter the drain that a termination signal
  enters. On a signal \<open>Shutdown\<close> is called once with the 30-second budget; on the
  listener's failure below it is not called at all.
\<close>

theorem listener_failure_counterexample:
  "shutdown_calls (RunSSEServerWithSimpleAuth_wait Shutdown_clean ctx_Done) = [30000000000]
   \<and> shutdown_calls (RunSSEServerWithSimpleAuth_wait Shutdown_clean
        (errC (Some (Errorf ''accept tcp [::]:8080: too many open files'')))) = []
   \<and> returned (RunSSEServerWithSimpleAuth_wait Shutdown_clean
        (errC (Some (Errorf ''accept tcp [::]:8080: too many open files''))))
      = Some (Errorf_w ''error running server: ''
                (Errorf ''accept tcp [::]:8080: too many open files''))"
  by (simp add: RunSSEServerWithSimpleAuth_wait_def graceful_shutdown_def time_Second_def)

end
